theory Spec2Isabelle
  imports Complex_Main "HOL-Library.Word"
begin

section \<open>Shared conventions\<close>

text \<open>
  JavaScript numbers are modelled as reals (rounding, NaN and overflow of IEEE doubles
  are outside the model).  \<^verbatim>\<open>Math.random()\<close> is a stream of draws: a function
  from the number of the call to the value it returned, together with a cursor that
  counts the calls made so far.  Nothing is assumed about the values of the stream.
\<close>

type_synonym rng = "nat \<Rightarrow> real"

section \<open>The letter-fall hook (useFallingLetters.js)\<close>

subsection \<open>The title element and its glyph spans\<close>

text \<open>
  A JavaScript string is a sequence of 16-bit code units; \<^verbatim>\<open>text[i]\<close> and
  \<^verbatim>\<open>text.length\<close> work on code units.  Class names are written as Isabelle strings.
\<close>

type_synonym code_unit = "16 word"

text \<open>
  The children of the title element: text nodes, and elements with their class list and
  their own children.
\<close>

datatype node = TextNode "code_unit list" | Element "string list" "node list"

fun textContent :: "node \<Rightarrow> code_unit list" where
  "textContent (TextNode t) = t"
| "textContent (Element cs kids) = concat (map textContent kids)"

text \<open>
  \<^verbatim>\<open>querySelectorAll\<close> with a selector that only looks at the class list: the matching
  elements below the given nodes, in document order.
\<close>

fun select :: "(string list \<Rightarrow> bool) \<Rightarrow> node \<Rightarrow> node list" where
  "select P (TextNode t) = []"
| "select P (Element cs kids) =
     (if P cs then [Element cs kids] else []) @ concat (map (select P) kids)"

definition querySelectorAll :: "(string list \<Rightarrow> bool) \<Rightarrow> node list \<Rightarrow> node list" where
  "querySelectorAll P kids = concat (map (select P) kids)"

text \<open>The selectors \<^verbatim>\<open>.letter\<close> and \<^verbatim>\<open>.letter:not(.letter--space)\<close>.\<close>

definition sel_letter :: "string list \<Rightarrow> bool" where
  "sel_letter cs = (''letter'' \<in> set cs)"

definition sel_letter_not_space :: "string list \<Rightarrow> bool" where
  "sel_letter_not_space cs = (''letter'' \<in> set cs \<and> ''letter--space'' \<notin> set cs)"

definition has_class :: "string \<Rightarrow> node \<Rightarrow> bool" where
  "has_class c n = (case n of TextNode t \<Rightarrow> False | Element cs kids \<Rightarrow> c \<in> set cs)"

text \<open>
  The span that one code unit of the text ends up as.  Lines 41--45 write the tag around
  the character, and line 47 gives the whole string to the HTML parser by assigning it
  to \<^verbatim>\<open>innerHTML\<close>.  Every character stands between two tags of its own, so the parser
  treats it on its own: a space (U+0020) gets the span marked \<^verbatim>\<open>letter--space\<close>; the
  parser reads a carriage return (U+000D) as a line feed (U+000A) and drops U+0000, which
  leaves the span without text; a lone \<^verbatim>\<open><\<close> or \<^verbatim>\<open>&\<close> before a tag is kept as text, as is
  every other code unit.
\<close>

definition wrap_char :: "code_unit \<Rightarrow> node" where
  "wrap_char c =
     (if c = 0x20 then Element [''letter'', ''letter--space''] [TextNode [0x20]]
      else if c = 0x0D then Element [''letter''] [TextNode [0x0A]]
      else if c = 0x00 then Element [''letter''] []
      else Element [''letter''] [TextNode [c]])"

text \<open>
  Step 1 of the effect (lines 35--54): the children of the title after the step, and the
  letters that are animated.
\<close>

definition decompose :: "node list \<Rightarrow> node list \<times> node list" where
  "decompose title =
     (if length (querySelectorAll sel_letter title) = 0 then
        (let text = concat (map textContent title);
             wrappedText = map wrap_char text
         in (wrappedText, querySelectorAll sel_letter_not_space wrappedText))
      else (title, querySelectorAll sel_letter_not_space title))"

subsection \<open>Per-letter parameters and the scroll update\<close>


record letter_params =
  randomY :: real
  randomX :: real
  randomRotation :: real
  randomDelayFactor :: real



text \<open>The properties a tween is asked to reach for one letter.\<close>

record tween_target =
  to_y :: real
  to_x :: real
  to_rotation :: real
  to_opacity :: real

definition letterFallProgress :: "real \<Rightarrow> letter_params \<Rightarrow> real" where
  "letterFallProgress progress params =
     min 1 (max 0 ((progress - randomDelayFactor params * 0.3) / 2.4))"

definition letter_target :: "real \<Rightarrow> letter_params \<Rightarrow> tween_target" where
  "letter_target progress params =
     (let f = letterFallProgress progress params
      in \<lparr> to_y = f * randomY params, to_x = f * randomX params,
           to_rotation = f * randomRotation params, to_opacity = 1 - f \<rparr>)"

subsection \<open>The effect\<close>

text \<open>
  The calls the hook makes to the tween library are recorded in a log, in the order they
  are made: the library is outside the repository.
\<close>

datatype gsap_call =
    GsapSet "node list" tween_target
  | GsapEntrance "node list" tween_target real real
  | GsapTo node tween_target

record scroll_trigger =
  st_letterParams :: "letter_params list"
  st_scrub :: real

record hook_state =
  titleRef :: "node list option"
  containerRef :: bool
  lettersRef :: "node list"
  scrollTriggerRef :: "scroll_trigger option"
  entranceTimelineRef :: "(real \<times> real) option"
  gsap_log :: "gsap_call list"
  hook_rng_pos :: nat


text \<open>
  \<^verbatim>\<open>onUpdate\<close> of the scroll trigger (lines 84--101): one tween request per letter, with
  the parameters the trigger captured when it was created.  \<open>letterParams\<close> was built by
  mapping over \<open>lettersRef\<close>, so the two lists are walked together.
\<close>

definition onUpdate :: "real \<Rightarrow> hook_state \<Rightarrow> hook_state" where
  "onUpdate progress s =
     (case scrollTriggerRef s of
        None \<Rightarrow> s
      | Some st \<Rightarrow>
          s\<lparr> gsap_log := gsap_log s @
                map (\<lambda>(letter, params). GsapTo letter (letter_target progress params))
                    (zip (lettersRef s) (st_letterParams st)) \<rparr>)"

text \<open>The clamp of the specification, written as the specification words it.\<close>

definition clamp :: "real \<Rightarrow> real \<Rightarrow> real \<Rightarrow> real" where
  "clamp v lo hi = (if v < lo then lo else if hi < v then hi else v)"

subsection \<open>The inline variant of Hero.jsx (lines 189--212)\<close>

text \<open>
  The callback of \<^verbatim>\<open>letters.forEach\<close> in \<^verbatim>\<open>onUpdate\<close>: it draws \<open>xDist\<close> anew at every
  call.  \<open>i\<close> is the index of the letter, \<open>innerHeight\<close> the height of the window.
\<close>

definition Hero_letter_target :: "rng \<Rightarrow> nat \<Rightarrow> real \<Rightarrow> real \<Rightarrow> nat \<Rightarrow> tween_target" where
  "Hero_letter_target rnd k innerHeight prog i =
     (let yDist = innerHeight * 1.5 + real ((i * 100) mod 300);
          xDist = (rnd k - 0.5) * 300 * prog;
          rot = (if i mod 2 = 0 then 1 else -1) * 45 * prog
      in \<lparr> to_y = prog * yDist, to_x = xDist, to_rotation = rot, to_opacity = 1 - prog \<rparr>)"

fun Hero_onUpdate_from :: "rng \<Rightarrow> nat \<Rightarrow> real \<Rightarrow> real \<Rightarrow> nat \<Rightarrow> node list \<Rightarrow> gsap_call list" where
  "Hero_onUpdate_from rnd k innerHeight prog i [] = []"
| "Hero_onUpdate_from rnd k innerHeight prog i (l # ls) =
     GsapTo l (Hero_letter_target rnd k innerHeight prog i)
       # Hero_onUpdate_from rnd (k + 1) innerHeight prog (i + 1) ls"

definition Hero_onUpdate :: "rng \<Rightarrow> nat \<Rightarrow> real \<Rightarrow> real \<Rightarrow> node list \<Rightarrow> gsap_call list" where
  "Hero_onUpdate rnd k innerHeight prog letters = Hero_onUpdate_from rnd k innerHeight prog 0 letters"

section \<open>The comet network (InteractiveNetwork, Hero.jsx lines 260--577)\<close>

subsection \<open>Points, distances and settings\<close>

record point =
  pt_x :: real
  pt_y :: real
  pt_radius :: real
  pt_id :: nat

text \<open>What \<^verbatim>\<open>getDistance\<close> returns: a finite number or \<^verbatim>\<open>Infinity\<close>.\<close>

datatype distance = Finite real | Infinity

text \<open>
  A point read from the array is \<open>None\<close> when the read gives \<^verbatim>\<open>undefined\<close>; \<open>!p\<close> is
  true exactly then, an object being truthy.
\<close>

definition getDistance :: "point option \<Rightarrow> point option \<Rightarrow> distance" where
  "getDistance p1 p2 =
     (case p1 of
        None \<Rightarrow> Infinity
      | Some a \<Rightarrow>
          (case p2 of
             None \<Rightarrow> Infinity
           | Some b \<Rightarrow>
               (let dx = pt_x a - pt_x b; dy = pt_y a - pt_y b
                in Finite (sqrt (dx * dx + dy * dy)))))"

text \<open>The comparisons \<open>d > c\<close> and \<open>d <= c\<close> of a distance with a finite number.\<close>

fun dist_gt :: "distance \<Rightarrow> real \<Rightarrow> bool" where
  "dist_gt Infinity c = True"
| "dist_gt (Finite d) c = (c < d)"

fun dist_le :: "distance \<Rightarrow> real \<Rightarrow> bool" where
  "dist_le Infinity c = False"
| "dist_le (Finite d) c = (d \<le> c)"

text \<open>
  The props of the component.  \<open>pointColorAlpha\<close> stands for the alpha that
  \<^verbatim>\<open>drawStaticPoints\<close> reads out of the colour string \<open>pointColor\<close>; \<open>connectDistance\<close>
  is a finite number of pixels; \<open>numPoints\<close> and \<open>maxActiveLines\<close> are whole numbers.
\<close>

record networkSettings =
  numPoints :: nat
  pointRadius :: real
  pointColorAlpha :: real
  connectDistance :: real
  lineColors :: "string list"
  lineWidthStart :: real
  cometTailLength :: real
  lineAnimationDuration :: real
  explosionMaxRadiusFactor :: real
  explosionDuration :: real
  maxActiveLines :: int

subsection \<open>Entities, canvas and engine state\<close>

record ExplosionEffect =
  ex_x :: real
  ex_y :: real
  ex_color :: "string option"
  ex_radius :: real
  ex_opacity :: real

record AnimatedLine =
  line_p1 :: point
  line_p2 :: point
  headProgress :: real
  tailStartProgress :: real
  isVisible :: bool
  line_color :: "string option"

text \<open>
  The calls made on the 2d context that build a path or paint, in order.  Only the
  geometry is kept: the fill and stroke styles and the gradients are not modelled, and
  the colours of \<open>lineColors\<close> are taken to be colour strings of the shape of the
  defaults, which the gradient accepts.  What is modelled of a colour is whether it is
  there: reading \<^verbatim>\<open>this.color.match\<close> of a comet or explosion whose colour is
  \<^verbatim>\<open>undefined\<close> raises a TypeError, and \<^verbatim>\<open>arc\<close> with a negative radius raises an
  IndexSizeError.  A drawing function returns the calls it has made and the exception
  that ended it, if one did.
\<close>

datatype js_error = TypeError | IndexSizeError

datatype draw_cmd =
    ClearRect real real real real
  | BeginPath
  | MoveTo real real
  | LineTo real real
  | Arc real real real
  | Stroke real
  | Fill

record canvas =
  canvas_width :: int
  canvas_height :: int
  drawn :: "draw_cmd list"

text \<open>
  The refs of the component and what the tween library holds for it.  Comets and
  explosions are objects: each lives in a store under the number it was allocated with,
  and the two active collections hold such numbers, because the callbacks of a tween
  keep their object whether or not a collection still lists it.

  The library is outside the repository.  Of it the model keeps what the component
  relies on: \<open>ticker_updateNetwork\<close> says that \<^verbatim>\<open>updateNetwork\<close> is subscribed to the
  ticker, \<open>spawnInterval\<close> that the repeating spawn tween is alive, and \<open>line_tweens\<close>
  and \<open>explosion_tweens\<close> list the objects whose tween was started and has neither
  completed nor been killed.
\<close>

record network =
  canvasRef :: "canvas option"
  parentElement :: "(real \<times> real) option"
  ctxRef :: bool
  pointsRef :: "point list"
  line_objs :: "nat \<Rightarrow> AnimatedLine option"
  explosion_objs :: "nat \<Rightarrow> ExplosionEffect option"
  next_obj :: nat
  activeLinesRef :: "nat list"
  activeExplosionsRef :: "nat list"
  isInitialized :: bool
  resize_listener :: bool
  ticker_updateNetwork :: bool
  spawnInterval :: bool
  line_tweens :: "nat list"
  explosion_tweens :: "nat list"
  rng_pos :: nat

subsection \<open>Array reads and random indices\<close>

text \<open>\<^verbatim>\<open>xs[i]\<close>: \<^verbatim>\<open>undefined\<close> outside the array.\<close>

definition js_index :: "'a list \<Rightarrow> int \<Rightarrow> 'a option" where
  "js_index xs i = (if 0 \<le> i \<and> i < int (length xs) then Some (xs ! nat i) else None)"

text \<open>\<^verbatim>\<open>Math.floor(Math.random() * n)\<close>, for the draw number \<open>k\<close>.\<close>

definition random_index :: "rng \<Rightarrow> nat \<Rightarrow> nat \<Rightarrow> int" where
  "random_index rnd k n = \<lfloor>rnd k * real n\<rfloor>"

subsection \<open>Constructors and tween callbacks\<close>

text \<open>
  \<^verbatim>\<open>new ExplosionEffect(x, y, color)\<close>: allocates the object and starts its tween.
  Returns the number of the object.
\<close>

definition new_ExplosionEffect ::
  "networkSettings \<Rightarrow> real \<Rightarrow> real \<Rightarrow> string option \<Rightarrow> network \<Rightarrow> nat \<times> network" where
  "new_ExplosionEffect cfg x y color s =
     (let this = next_obj s
      in (this,
          s\<lparr> explosion_objs := (explosion_objs s)(this \<mapsto>
                 \<lparr> ex_x = x, ex_y = y, ex_color = color,
                   ex_radius = pointRadius cfg, ex_opacity = 0.8 \<rparr>),
             next_obj := this + 1,
             explosion_tweens := explosion_tweens s @ [this] \<rparr>))"

text \<open>\<^verbatim>\<open>onComplete\<close> of the tween of explosion \<open>this\<close> (line 324).\<close>

definition ExplosionEffect_onComplete :: "nat \<Rightarrow> network \<Rightarrow> network" where
  "ExplosionEffect_onComplete this s =
     s\<lparr> activeExplosionsRef := filter (\<lambda>exp. exp \<noteq> this) (activeExplosionsRef s) \<rparr>"

text \<open>
  \<^verbatim>\<open>new AnimatedLine(p1, p2)\<close>: one draw for the colour, then the timeline is started.
\<close>

definition new_AnimatedLine ::
  "networkSettings \<Rightarrow> rng \<Rightarrow> point \<Rightarrow> point \<Rightarrow> network \<Rightarrow> nat \<times> network" where
  "new_AnimatedLine cfg rnd p1 p2 s =
     (let this = next_obj s;
          color = js_index (lineColors cfg)
                    (random_index rnd (rng_pos s) (length (lineColors cfg)))
      in (this,
          s\<lparr> line_objs := (line_objs s)(this \<mapsto>
                 \<lparr> line_p1 = p1, line_p2 = p2, headProgress = 0, tailStartProgress = 0,
                   isVisible = True, line_color = color \<rparr>),
             next_obj := this + 1,
             line_tweens := line_tweens s @ [this],
             rng_pos := rng_pos s + 1 \<rparr>))"

text \<open>\<^verbatim>\<open>onUpdate\<close> and \<^verbatim>\<open>onComplete\<close> of the timeline of comet \<open>this\<close> (lines 367--377).\<close>

definition AnimatedLine_onUpdate :: "networkSettings \<Rightarrow> nat \<Rightarrow> network \<Rightarrow> network" where
  "AnimatedLine_onUpdate cfg this s =
     (case line_objs s this of
        None \<Rightarrow> s
      | Some l \<Rightarrow>
          s\<lparr> line_objs := (line_objs s)(this \<mapsto>
                 l\<lparr> tailStartProgress := max 0 (headProgress l - cometTailLength cfg) \<rparr>) \<rparr>)"

definition AnimatedLine_onComplete :: "networkSettings \<Rightarrow> nat \<Rightarrow> network \<Rightarrow> network" where
  "AnimatedLine_onComplete cfg this s =
     (case line_objs s this of
        None \<Rightarrow> s
      | Some l \<Rightarrow>
          (let s1 = s\<lparr> line_objs := (line_objs s)(this \<mapsto> l\<lparr> isVisible := False \<rparr>) \<rparr>
           in case new_ExplosionEffect cfg (pt_x (line_p2 l)) (pt_y (line_p2 l)) (line_color l) s1 of
                (explosion, s2) \<Rightarrow>
                  s2\<lparr> activeExplosionsRef := activeExplosionsRef s2 @ [explosion],
                      activeLinesRef := filter (\<lambda>line. line \<noteq> this) (activeLinesRef s2) \<rparr>))"

subsection \<open>Drawing\<close>

text \<open>One piece of drawing after another: an exception in the first ends both.\<close>

definition then_draw ::
  "draw_cmd list \<times> js_error option \<Rightarrow> draw_cmd list \<times> js_error option
     \<Rightarrow> draw_cmd list \<times> js_error option" where
  "then_draw a b =
     (case a of
        (cmds, Some err) \<Rightarrow> (cmds, Some err)
      | (cmds, None) \<Rightarrow> (case b of (cmds', r) \<Rightarrow> (cmds @ cmds', r)))"

text \<open>\<^verbatim>\<open>xs.forEach(x => draw x)\<close>: the exception of one element ends the loop.\<close>

fun forEach_draw ::
  "('a \<Rightarrow> draw_cmd list \<times> js_error option) \<Rightarrow> 'a list \<Rightarrow> draw_cmd list \<times> js_error option" where
  "forEach_draw f [] = ([], None)"
| "forEach_draw f (x # xs) = then_draw (f x) (forEach_draw f xs)"

text \<open>
  \<^verbatim>\<open>AnimatedLine.draw\<close> (lines 381--421), called with a context that is not null.  The
  path of the tail is laid (lines 398--400) before the colour is first read (line 403).
\<close>

definition AnimatedLine_draw ::
  "networkSettings \<Rightarrow> AnimatedLine \<Rightarrow> draw_cmd list \<times> js_error option" where
  "AnimatedLine_draw cfg l =
     (if \<not> isVisible l then ([], None)
      else if headProgress l \<ge> 1 \<and> tailStartProgress l \<ge> headProgress l then ([], None)
      else
        (let dx = pt_x (line_p2 l) - pt_x (line_p1 l);
             dy = pt_y (line_p2 l) - pt_y (line_p1 l);
             headX = pt_x (line_p1 l) + dx * headProgress l;
             headY = pt_y (line_p1 l) + dy * headProgress l;
             tailStartX = pt_x (line_p1 l) + dx * tailStartProgress l;
             tailStartY = pt_y (line_p1 l) + dy * tailStartProgress l
         in if \<bar>headX - tailStartX\<bar> < 0.1 \<and> \<bar>headY - tailStartY\<bar> < 0.1 \<and> headProgress l < 0.05
            then ([], None)
            else
              (case line_color l of
                 None \<Rightarrow>
                   ([BeginPath, MoveTo tailStartX tailStartY, LineTo headX headY], Some TypeError)
               | Some color \<Rightarrow>
                   (let headRadius =
                          (if lineWidthStart cfg > 1 then lineWidthStart cfg / 1.5 else 1)
                    in ([BeginPath, MoveTo tailStartX tailStartY, LineTo headX headY,
                         Stroke (lineWidthStart cfg),
                         BeginPath, Arc headX headY headRadius, Fill], None)))))"

text \<open>
  \<^verbatim>\<open>ExplosionEffect.draw\<close> (lines 330--349).  The arc is laid (lines 333--334) before the
  colour is read (line 336); its radius is above 0.1 there.
\<close>

definition ExplosionEffect_draw :: "ExplosionEffect \<Rightarrow> draw_cmd list \<times> js_error option" where
  "ExplosionEffect_draw e =
     (if ex_opacity e \<le> 0.01 \<or> ex_radius e \<le> 0.1 then ([], None)
      else
        (case ex_color e of
           None \<Rightarrow> ([BeginPath, Arc (ex_x e) (ex_y e) (ex_radius e)], Some TypeError)
         | Some color \<Rightarrow> ([BeginPath, Arc (ex_x e) (ex_y e) (ex_radius e), Fill], None)))"

text \<open>\<^verbatim>\<open>drawStaticPoints\<close> (lines 446--462) and the callback of its \<^verbatim>\<open>forEach\<close>.\<close>

definition draw_point :: "point \<Rightarrow> draw_cmd list \<times> js_error option" where
  "draw_point point =
     (if pt_radius point < 0 then ([BeginPath], Some IndexSizeError)
      else ([BeginPath, Arc (pt_x point) (pt_y point) (pt_radius point), Fill], None))"

definition drawStaticPoints ::
  "networkSettings \<Rightarrow> point list \<Rightarrow> draw_cmd list \<times> js_error option" where
  "drawStaticPoints cfg points =
     (if pointColorAlpha cfg = 0 then ([], None) else forEach_draw draw_point points)"

text \<open>
  \<^verbatim>\<open>updateNetwork\<close> (lines 512--523), the callback given to the ticker.  It returns the
  exception that left it, if one did; the calls made before it stay on the canvas.
\<close>

definition updateNetwork :: "networkSettings \<Rightarrow> network \<Rightarrow> js_error option \<times> network" where
  "updateNetwork cfg s =
     (case canvasRef s of
        None \<Rightarrow> (None, s)
      | Some c \<Rightarrow>
          if \<not> ctxRef s then (None, s)
          else
            (case then_draw
                    ([ClearRect 0 0 (real_of_int (canvas_width c)) (real_of_int (canvas_height c))],
                     None)
                   (then_draw (drawStaticPoints cfg (pointsRef s))
                      (then_draw
                         (forEach_draw (\<lambda>line. case line_objs s line of
                                                   None \<Rightarrow> ([], None)
                                                 | Some l \<Rightarrow> AnimatedLine_draw cfg l)
                            (activeLinesRef s))
                         (forEach_draw (\<lambda>explosion. case explosion_objs s explosion of
                                                        None \<Rightarrow> ([], None)
                                                      | Some e \<Rightarrow> ExplosionEffect_draw e)
                            (activeExplosionsRef s)))) of
               (cmds, r) \<Rightarrow> (r, s\<lparr> canvasRef := Some (c\<lparr> drawn := drawn c @ cmds \<rparr>) \<rparr>)))"

subsection \<open>Set-up, resize and clean-up\<close>

definition resizeCanvas :: "network \<Rightarrow> network" where
  "resizeCanvas s =
     (case canvasRef s of
        None \<Rightarrow> s
      | Some c \<Rightarrow>
          (case parentElement s of
             None \<Rightarrow> s
           | Some (offsetWidth, offsetHeight) \<Rightarrow>
               s\<lparr> canvasRef := Some (c\<lparr> canvas_width := \<lfloor>offsetWidth\<rfloor>,
                                          canvas_height := \<lfloor>offsetHeight\<rfloor> \<rparr>) \<rparr>))"

text \<open>The loop of \<^verbatim>\<open>createPoints\<close>: \<open>n\<close> points are still to be made, the next has id \<open>i\<close>.\<close>

fun createPoints_loop :: "networkSettings \<Rightarrow> rng \<Rightarrow> canvas \<Rightarrow> nat \<Rightarrow> nat \<Rightarrow> nat \<Rightarrow> point list" where
  "createPoints_loop cfg rnd c k i 0 = []"
| "createPoints_loop cfg rnd c k i (Suc n) =
     \<lparr> pt_x = rnd k * real_of_int (canvas_width c),
       pt_y = rnd (k + 1) * real_of_int (canvas_height c),
       pt_radius = pointRadius cfg, pt_id = i \<rparr>
     # createPoints_loop cfg rnd c (k + 2) (i + 1) n"

definition createPoints :: "networkSettings \<Rightarrow> rng \<Rightarrow> network \<Rightarrow> network" where
  "createPoints cfg rnd s =
     (case canvasRef s of
        None \<Rightarrow> s
      | Some c \<Rightarrow>
          s\<lparr> pointsRef := createPoints_loop cfg rnd c (rng_pos s) 0 (numPoints cfg),
             rng_pos := rng_pos s + 2 * numPoints cfg \<rparr>)"

text \<open>The body of the effect (lines 526--555) and the function it returns (lines 558--565).\<close>

definition initialize :: "networkSettings \<Rightarrow> rng \<Rightarrow> network \<Rightarrow> network" where
  "initialize cfg rnd s =
     (if isInitialized s then s
      else case canvasRef s of
        None \<Rightarrow> s
      | Some c \<Rightarrow>
          (let s1 = s\<lparr> ctxRef := True, isInitialized := True \<rparr>;
               s2 = createPoints cfg rnd (resizeCanvas s1)
           in s2\<lparr> resize_listener := True, ticker_updateNetwork := True,
                  spawnInterval := True \<rparr>))"

definition handleResize :: "networkSettings \<Rightarrow> rng \<Rightarrow> network \<Rightarrow> network" where
  "handleResize cfg rnd s =
     createPoints cfg rnd
       ((resizeCanvas s)\<lparr> activeLinesRef := [], activeExplosionsRef := [] \<rparr>)"

definition cleanup :: "network \<Rightarrow> network" where
  "cleanup s =
     s\<lparr> resize_listener := False,
        ticker_updateNetwork := False,
        spawnInterval := False,
        activeLinesRef := [],
        activeExplosionsRef := [],
        isInitialized := False \<rparr>"

subsection \<open>Spawning a comet\<close>

definition maxAttempts :: nat where
  "maxAttempts = 50"

text \<open>
  The loop \<^verbatim>\<open>while (p1Index === p2Index && attempts < maxAttempts)\<close> of lines 484 and
  495; \<open>k\<close> is the cursor of the draws.  It returns \<open>p2Index\<close>, the counter and the cursor.
\<close>

function distinct_loop :: "rng \<Rightarrow> nat \<Rightarrow> int \<Rightarrow> int \<Rightarrow> nat \<Rightarrow> nat \<Rightarrow> int \<times> nat \<times> nat" where
  "distinct_loop rnd n p1Index p2Index attempts k =
     (if p1Index = p2Index \<and> attempts < maxAttempts
      then distinct_loop rnd n p1Index (random_index rnd k n) (attempts + 1) (k + 1)
      else (p2Index, attempts, k))"
  by pat_completeness auto
termination
  by (relation "measure (\<lambda>(rnd, n, p1Index, p2Index, attempts, k). maxAttempts - attempts)") auto

declare distinct_loop.simps [simp del]

text \<open>
  The loop of lines 491--504.  It returns both indices, the counter \<open>attempts\<close> and the
  cursor; the \<^verbatim>\<open>break\<close> leaves with \<open>attempts = maxAttempts\<close>.
\<close>

function distance_loop ::
  "networkSettings \<Rightarrow> rng \<Rightarrow> point list \<Rightarrow> int \<Rightarrow> int \<Rightarrow> nat \<Rightarrow> nat \<Rightarrow> int \<times> int \<times> nat \<times> nat" where
  "distance_loop cfg rnd points p1Index p2Index attempts k =
     (if dist_gt (getDistance (js_index points p1Index) (js_index points p2Index)) (connectDistance cfg)
         \<and> attempts < maxAttempts
      then
        (let p1Index' = random_index rnd k (length points);
             p2Index' = random_index rnd (k + 1) (length points)
         in case distinct_loop rnd (length points) p1Index' p2Index' 0 (k + 2) of
              (p2Index'', innerAttempts, k') \<Rightarrow>
                if p1Index' = p2Index'' then (p1Index', p2Index'', maxAttempts, k')
                else distance_loop cfg rnd points p1Index' p2Index'' (attempts + 1) k')
      else (p1Index, p2Index, attempts, k))"
  by pat_completeness auto
termination
  by (relation "measure (\<lambda>(cfg, rnd, points, p1Index, p2Index, attempts, k). maxAttempts - attempts)") auto

declare distance_loop.simps [simp del]

text \<open>
  \<^verbatim>\<open>spawnRandomLine\<close> (lines 471--510).  The last test passes only for two points that
  exist, so the constructor is given points; the other branch of the inner \<open>case\<close> is
  never taken (lemma \<open>dist_le_getDistance_Some\<close>).
\<close>

definition spawnRandomLine :: "networkSettings \<Rightarrow> rng \<Rightarrow> network \<Rightarrow> network" where
  "spawnRandomLine cfg rnd s =
     (let points = pointsRef s; activeLines = activeLinesRef s
      in if canvasRef s = None \<or> length points < 2
            \<or> int (length activeLines) \<ge> maxActiveLines cfg
         then s
         else
           (let p1Index = random_index rnd (rng_pos s) (length points);
                p2Index = random_index rnd (rng_pos s + 1) (length points)
            in case distinct_loop rnd (length points) p1Index p2Index 0 (rng_pos s + 2) of
                 (p2Index, attempts, k) \<Rightarrow>
                   if p1Index = p2Index then s\<lparr> rng_pos := k \<rparr>
                   else
                     (case distance_loop cfg rnd points p1Index p2Index 0 k of
                        (p1Index, p2Index, attempts, k) \<Rightarrow>
                          (let s1 = s\<lparr> rng_pos := k \<rparr>
                           in if p1Index \<noteq> p2Index
                                 \<and> dist_le (getDistance (js_index points p1Index) (js_index points p2Index))
                                      (connectDistance cfg)
                              then
                                (case (js_index points p1Index, js_index points p2Index) of
                                   (Some p1, Some p2) \<Rightarrow>
                                     (case new_AnimatedLine cfg rnd p1 p2 s1 of
                                        (newLine, s2) \<Rightarrow>
                                          s2\<lparr> activeLinesRef := activeLinesRef s2 @ [newLine] \<rparr>)
                                 | _ \<Rightarrow> s1)
                              else s1))))"

text \<open>
  The search of lines 479--504 on its own, for stating what it returns: both indices,
  the counter \<open>attempts\<close> and the cursor.  The \<^verbatim>\<open>return\<close> of line 488 shows as two equal
  indices.  Lemma \<open>spawnRandomLine_search\<close> relates it to \<^verbatim>\<open>spawnRandomLine\<close>.
\<close>

definition spawn_search ::
  "networkSettings \<Rightarrow> rng \<Rightarrow> point list \<Rightarrow> nat \<Rightarrow> int \<times> int \<times> nat \<times> nat" where
  "spawn_search cfg rnd points k0 =
     (let p1Index = random_index rnd k0 (length points);
          p2Index = random_index rnd (k0 + 1) (length points)
      in case distinct_loop rnd (length points) p1Index p2Index 0 (k0 + 2) of
           (p2Index, attempts, k) \<Rightarrow>
             if p1Index = p2Index then (p1Index, p2Index, attempts, k)
             else distance_loop cfg rnd points p1Index p2Index 0 k)"

subsection \<open>What the library calls back\<close>

text \<open>
  The events the tween library delivers to the component.  Each calls back only what
  is still registered with it: the ticker calls \<^verbatim>\<open>updateNetwork\<close> while it is
  subscribed, the repeating tween calls \<^verbatim>\<open>spawnRandomLine\<close> while it is alive, and a
  tween that is in flight renders its value and calls \<^verbatim>\<open>onUpdate\<close>, and at its end
  \<^verbatim>\<open>onComplete\<close>.
\<close>

definition ticker_tick :: "networkSettings \<Rightarrow> network \<Rightarrow> js_error option \<times> network" where
  "ticker_tick cfg s = (if ticker_updateNetwork s then updateNetwork cfg s else (None, s))"

definition spawnInterval_repeat :: "networkSettings \<Rightarrow> rng \<Rightarrow> network \<Rightarrow> network" where
  "spawnInterval_repeat cfg rnd s = (if spawnInterval s then spawnRandomLine cfg rnd s else s)"

definition set_headProgress :: "nat \<Rightarrow> real \<Rightarrow> network \<Rightarrow> network" where
  "set_headProgress this h s =
     (case line_objs s this of
        None \<Rightarrow> s
      | Some l \<Rightarrow> s\<lparr> line_objs := (line_objs s)(this \<mapsto> l\<lparr> headProgress := h \<rparr>) \<rparr>)"

definition line_tween_render :: "networkSettings \<Rightarrow> nat \<Rightarrow> real \<Rightarrow> network \<Rightarrow> network" where
  "line_tween_render cfg this h s =
     (if this \<in> set (line_tweens s)
      then AnimatedLine_onUpdate cfg this (set_headProgress this h s)
      else s)"

definition line_tween_complete :: "networkSettings \<Rightarrow> nat \<Rightarrow> network \<Rightarrow> network" where
  "line_tween_complete cfg this s =
     (if this \<in> set (line_tweens s)
      then
        (let s1 = AnimatedLine_onUpdate cfg this (set_headProgress this 1 s);
             s2 = AnimatedLine_onComplete cfg this s1
         in s2\<lparr> line_tweens := filter (\<lambda>t. t \<noteq> this) (line_tweens s2) \<rparr>)
      else s)"

definition explosion_tween_complete :: "networkSettings \<Rightarrow> nat \<Rightarrow> network \<Rightarrow> network" where
  "explosion_tween_complete cfg this s =
     (if this \<in> set (explosion_tweens s)
      then
        (let s1 = (case explosion_objs s this of
                     None \<Rightarrow> s
                   | Some e \<Rightarrow>
                       s\<lparr> explosion_objs := (explosion_objs s)(this \<mapsto>
                              e\<lparr> ex_radius := pointRadius cfg * explosionMaxRadiusFactor cfg,
                                 ex_opacity := 0 \<rparr>) \<rparr>);
             s2 = ExplosionEffect_onComplete this s1
         in s2\<lparr> explosion_tweens := filter (\<lambda>t. t \<noteq> this) (explosion_tweens s2) \<rparr>)
      else s)"

section \<open>The frame loop of the first Hero component (Hero.jsx lines 94--116 and 166--176)\<close>

text \<open>
  A particle of an \<^verbatim>\<open>Explosion\<close>.  The constructor gives a particle no \<open>x\<close> and no \<open>y\<close>;
  \<open>None\<close> stands for a value that is not a number (\<^verbatim>\<open>undefined\<close>, and \<^verbatim>\<open>NaN\<close> once a
  velocity has been added to it).
\<close>

record particle =
  part_x :: "real option"
  part_y :: "real option"
  vx :: real
  vy :: real
  life :: real
  size_px :: real

record Explosion =
  expl_x :: real
  expl_y :: real
  expl_color :: string
  particles :: "particle list"

text \<open>\<^verbatim>\<open>fillRect\<close> with the colour and alpha of the fill style set before it.\<close>

datatype hero_draw = FillRect string real "real option" "real option" real real

definition add_number :: "real option \<Rightarrow> real \<Rightarrow> real option" where
  "add_number a v = (case a of None \<Rightarrow> None | Some r \<Rightarrow> Some (r + v))"

definition Explosion_update :: "Explosion \<Rightarrow> Explosion" where
  "Explosion_update e =
     e\<lparr> particles :=
          filter (\<lambda>p. life p > 0)
            (map (\<lambda>p. p\<lparr> part_x := add_number (part_x p) (vx p),
                         part_y := add_number (part_y p) (vy p),
                         life := life p - 0.04 \<rparr>)
                 (particles e)) \<rparr>"

definition Explosion_draw :: "Explosion \<Rightarrow> hero_draw list" where
  "Explosion_draw e =
     map (\<lambda>p. FillRect (expl_color e) (life p) (part_x p) (part_y p) (size_px p) (size_px p))
         (particles e)"

text \<open>\<^verbatim>\<open>explosions.splice(i, 1)\<close>.\<close>

definition splice1 :: "nat \<Rightarrow> 'a list \<Rightarrow> 'a list" where
  "splice1 i xs = take i xs @ drop (i + 1) xs"

text \<open>
  \<^verbatim>\<open>explosions.forEach((e, i) => ...)\<close> of lines 171--174.  \<^verbatim>\<open>forEach\<close> reads the length
  \<open>len\<close> once, then visits the indices \<open>k < len\<close> in order and skips an index the array
  no longer has.  The state is the array and the draw calls made so far.
\<close>

function explosions_forEach ::
  "nat \<Rightarrow> nat \<Rightarrow> Explosion list \<times> hero_draw list \<Rightarrow> Explosion list \<times> hero_draw list" where
  "explosions_forEach k len (explosions, out) =
     (if k < len then
        (if k < length explosions then
           (let e = Explosion_update (explosions ! k);
                out' = out @ Explosion_draw e;
                explosions' = explosions[k := e]
            in explosions_forEach (k + 1) len
                 (if length (particles e) = 0 then splice1 k explosions' else explosions', out'))
         else explosions_forEach (k + 1) len (explosions, out))
      else (explosions, out))"
  by pat_completeness auto
termination
  by (relation "measure (\<lambda>(k, len, st). len - k)") auto

declare explosions_forEach.simps [simp del]

definition animate_explosions :: "Explosion list \<Rightarrow> Explosion list \<times> hero_draw list" where
  "animate_explosions explosions = explosions_forEach 0 (length explosions) (explosions, [])"

text \<open>
  What the specification asks of such a pass: every explosion is updated and drawn
  once, and those left without a particle are removed.
\<close>

definition explosions_pass_spec :: "Explosion list \<Rightarrow> Explosion list \<times> hero_draw list" where
  "explosions_pass_spec explosions =
     (filter (\<lambda>e. length (particles e) \<noteq> 0) (map Explosion_update explosions),
      concat (map (\<lambda>e. Explosion_draw (Explosion_update e)) explosions))"

section \<open>Concrete inputs\<close>




text \<open>
  The settings the Hero component passes, with three points instead of 800, and an
  engine before its effect has run: a canvas of the default size in a parent of
  1000 by 10 pixels.
\<close>

definition cfg0 :: networkSettings where
  "cfg0 = \<lparr> numPoints = 3, pointRadius = 1.5, pointColorAlpha = 0, connectDistance = 500,
     lineColors = [''rgba(255, 127, 80, 0.8)'', ''rgba(66, 181, 239, 0.7)'',
                   ''rgba(219, 35, 239, 0.7)'', ''rgba(234, 234, 234, 0.6)''],
     lineWidthStart = 2.5, cometTailLength = 7.35, lineAnimationDuration = 2.8,
     explosionMaxRadiusFactor = 20, explosionDuration = 0.9, maxActiveLines = 20 \<rparr>"

definition net_unmounted :: network where
  "net_unmounted = \<lparr> canvasRef = Some \<lparr> canvas_width = 300, canvas_height = 150, drawn = [] \<rparr>,
     parentElement = Some (1000, 10), ctxRef = False, pointsRef = [],
     line_objs = (\<lambda>r. None), explosion_objs = (\<lambda>r. None), next_obj = 0,
     activeLinesRef = [], activeExplosionsRef = [], isInitialized = False,
     resize_listener = False, ticker_updateNetwork = False, spawnInterval = False,
     line_tweens = [], explosion_tweens = [], rng_pos = 0 \<rparr>"

text \<open>
  Three streams of draws.  All of them place the points at (0, 0), (900, 0) and (0, 5),
  with draws 0 to 5.  From draw 6 on, \<open>rnd_near\<close> picks the points 0 and 2 at once;
  \<open>rnd_far\<close> picks the points 0 and 1 fifty times and then the points 0 and 2;
  \<open>rnd_never\<close> picks the points 0 and 1 every time.
\<close>

definition rnd_near :: rng where
  "rnd_near k = (if k = 2 then 9/10 else if k = 5 then 1/2 else if k = 7 then 2/3 else 0)"

definition rnd_far :: rng where
  "rnd_far k = (if k = 2 then 9/10 else if k = 5 then 1/2 else if k < 6 then 0
                else if k = 107 then 2/3 else if even k then 0 else 1/3)"

definition rnd_never :: rng where
  "rnd_never k = (if k = 2 then 9/10 else if k = 5 then 1/2 else if k < 6 then 0
                  else if even k then 0 else 1/3)"

definition points3 :: "point list" where
  "points3 = [\<lparr> pt_x = 0, pt_y = 0, pt_radius = 1.5, pt_id = 0 \<rparr>,
              \<lparr> pt_x = 900, pt_y = 0, pt_radius = 1.5, pt_id = 1 \<rparr>,
              \<lparr> pt_x = 0, pt_y = 5, pt_radius = 1.5, pt_id = 2 \<rparr>]"

text \<open>The engine after its effect has run, and after its first comet has been spawned.\<close>

definition net_mounted :: network where
  "net_mounted = \<lparr> canvasRef = Some \<lparr> canvas_width = 1000, canvas_height = 10, drawn = [] \<rparr>,
     parentElement = Some (1000, 10), ctxRef = True, pointsRef = points3,
     line_objs = (\<lambda>r. None), explosion_objs = (\<lambda>r. None), next_obj = 0,
     activeLinesRef = [], activeExplosionsRef = [], isInitialized = True,
     resize_listener = True, ticker_updateNetwork = True, spawnInterval = True,
     line_tweens = [], explosion_tweens = [], rng_pos = 6 \<rparr>"

definition comet02 :: AnimatedLine where
  "comet02 = \<lparr> line_p1 = \<lparr> pt_x = 0, pt_y = 0, pt_radius = 1.5, pt_id = 0 \<rparr>,
               line_p2 = \<lparr> pt_x = 0, pt_y = 5, pt_radius = 1.5, pt_id = 2 \<rparr>,
               headProgress = 0, tailStartProgress = 0, isVisible = True,
               line_color = Some ''rgba(255, 127, 80, 0.8)'' \<rparr>"

definition net_flying :: network where
  "net_flying = \<lparr> canvasRef = Some \<lparr> canvas_width = 1000, canvas_height = 10, drawn = [] \<rparr>,
     parentElement = Some (1000, 10), ctxRef = True, pointsRef = points3,
     line_objs = (\<lambda>r. None)(0 \<mapsto> comet02), explosion_objs = (\<lambda>r. None), next_obj = 1,
     activeLinesRef = [0], activeExplosionsRef = [], isInitialized = True,
     resize_listener = True, ticker_updateNetwork = True, spawnInterval = True,
     line_tweens = [0], explosion_tweens = [], rng_pos = 9 \<rparr>"

text \<open>
  Two explosions of the first Hero component: one whose particles are at their last
  frame, and a younger one behind it in the array.
\<close>

definition dying :: Explosion where
  "dying = \<lparr> expl_x = 100, expl_y = 700, expl_color = ''255, 109, 90'',
     particles = replicate 8 \<lparr> part_x = None, part_y = None, vx = 1, vy = -1,
                                life = 0.04, size_px = 2 \<rparr> \<rparr>"

definition young :: Explosion where
  "young = \<lparr> expl_x = 300, expl_y = 720, expl_color = ''66, 181, 239'',
     particles = replicate 8 \<lparr> part_x = None, part_y = None, vx = 1, vy = -1,
                                life = 1, size_px = 2 \<rparr> \<rparr>"

text \<open>
  Two glyphs of the title as the Hero component renders it (R is U+0052, S is U+0053)
  with the spacer between them, the text AB CD as one text node, and a stream whose
  first draw is 0 and whose others are 1/2.
\<close>

definition glyph_R :: node where
  "glyph_R = Element [''letter'', ''inline-block''] [TextNode [0x52]]"

definition glyph_S :: node where
  "glyph_S = Element [''letter'', ''inline-block''] [TextNode [0x53]]"

definition title_rendered :: "node list" where
  "title_rendered = [glyph_R, Element [''inline-block''] [], glyph_S]"

definition title_AB_CD :: "node list" where
  "title_AB_CD = [TextNode [0x41, 0x42, 0x20, 0x43, 0x44]]"

definition rnd_step :: rng where
  "rnd_step k = (if k = 0 then 0 else 1/2)"

section \<open>The letter-fall hook: theorems\<close>

subsection \<open>Fall progress\<close>

lemma letterFallProgress_clamp:
  "letterFallProgress p prm = clamp ((p - randomDelayFactor prm * 0.3) / 2.4) 0 1"
  by (simp add: letterFallProgress_def clamp_def min_def max_def)

text \<open>
  Claim C5.  For every scroll progress \<open>p\<close>, also below 0 and above 1, and every letter,
  the fall progress computed by \<^verbatim>\<open>onUpdate\<close> is
  \<open>clamp ((p - delayFactor * 0.3) / 2.4) 0 1\<close> and lies between 0 and 1; the state asked of
  the tween is \<open>y = f * randomY\<close>, \<open>x = f * randomX\<close>, \<open>rotation = f * randomRotation\<close>,
  \<open>opacity = 1 - f\<close>, and \<^verbatim>\<open>onUpdate\<close> asks exactly this of every letter, with the
  parameters of that letter.
\<close>

theorem letterFallProgress_clamped:
  "letterFallProgress p prm = clamp ((p - randomDelayFactor prm * 0.3) / 2.4) 0 1
   \<and> 0 \<le> letterFallProgress p prm \<and> letterFallProgress p prm \<le> 1
   \<and> letter_target p prm =
       \<lparr> to_y = letterFallProgress p prm * randomY prm,
         to_x = letterFallProgress p prm * randomX prm,
         to_rotation = letterFallProgress p prm * randomRotation prm,
         to_opacity = 1 - letterFallProgress p prm \<rparr>
   \<and> gsap_log (onUpdate p (s\<lparr> scrollTriggerRef := Some st \<rparr>)) = gsap_log s @
         map (\<lambda>(letter, params). GsapTo letter (letter_target p params))
             (zip (lettersRef s) (st_letterParams st))"
proof -
  have "0 \<le> letterFallProgress p prm \<and> letterFallProgress p prm \<le> 1"
    by (simp add: letterFallProgress_def)
  moreover have "letter_target p prm =
       \<lparr> to_y = letterFallProgress p prm * randomY prm,
         to_x = letterFallProgress p prm * randomX prm,
         to_rotation = letterFallProgress p prm * randomRotation prm,
         to_opacity = 1 - letterFallProgress p prm \<rparr>"
    by (simp add: letter_target_def Let_def)
  moreover have "gsap_log (onUpdate p (s\<lparr> scrollTriggerRef := Some st \<rparr>)) = gsap_log s @
         map (\<lambda>(letter, params). GsapTo letter (letter_target p params))
             (zip (lettersRef s) (st_letterParams st))"
    by (simp add: onUpdate_def)
  ultimately show ?thesis
    using letterFallProgress_clamp by blast
qed

subsection \<open>Decomposing the title\<close>

lemma select_wrap_char: "select sel_letter (wrap_char c) = [wrap_char c]"
  by (simp add: wrap_char_def sel_letter_def)

lemma qsa_wrapped: "querySelectorAll sel_letter (map wrap_char str) = map wrap_char str"
  by (induction str) (simp_all add: querySelectorAll_def select_wrap_char)

lemma select_not_space_wrap_char:
  "select sel_letter_not_space (wrap_char c) = (if c = 0x20 then [] else [wrap_char c])"
  by (simp add: wrap_char_def sel_letter_not_space_def)

lemma qsa_not_space_wrapped:
  "querySelectorAll sel_letter_not_space (map wrap_char str) =
     map wrap_char (filter (\<lambda>c. c \<noteq> 0x20) str)"
  by (induction str) (simp_all add: querySelectorAll_def select_not_space_wrap_char)

lemma select_not_space_no_space_glyph:
  "filter (has_class ''letter--space'') (select sel_letter_not_space n) = []"
  by (induction sel_letter_not_space n rule: select.induct)
     (auto simp: has_class_def sel_letter_not_space_def filter_concat filter_empty_conv)

lemma qsa_not_space_no_space_glyph:
  "filter (has_class ''letter--space'') (querySelectorAll sel_letter_not_space kids) = []"
  by (induction kids) (simp_all add: querySelectorAll_def select_not_space_no_space_glyph)

lemma decompose_fresh:
  assumes "querySelectorAll sel_letter title = []"
  shows "decompose title =
           (map wrap_char (concat (map textContent title)),
            map wrap_char (filter (\<lambda>c. c \<noteq> 0x20) (concat (map textContent title))))"
  using assms by (simp add: decompose_def Let_def qsa_not_space_wrapped)

lemma decompose_reuse:
  assumes "querySelectorAll sel_letter title \<noteq> []"
  shows "decompose title = (title, querySelectorAll sel_letter_not_space title)"
  using assms by (simp add: decompose_def)

lemma decompose_text:
  "decompose [TextNode str] =
     (map wrap_char str, map wrap_char (filter (\<lambda>c. c \<noteq> 0x20) str))"
proof -
  have "querySelectorAll sel_letter [TextNode str] = []"
    by (simp add: querySelectorAll_def)
  from decompose_fresh[OF this] show ?thesis
    by simp
qed

lemma decompose_again: "decompose (fst (decompose title)) = decompose title"
proof (cases "querySelectorAll sel_letter title = []")
  case False
  then show ?thesis by (simp add: decompose_def)
next
  case True
  define str where "str = concat (map textContent title)"
  have d: "decompose title =
             (map wrap_char str, querySelectorAll sel_letter_not_space (map wrap_char str))"
    using True by (simp add: decompose_def str_def Let_def)
  show ?thesis
  proof (cases "str = []")
    case True
    then show ?thesis using d by (simp add: decompose_def querySelectorAll_def)
  next
    case False
    then have "querySelectorAll sel_letter (map wrap_char str) \<noteq> []"
      by (simp add: qsa_wrapped)
    then show ?thesis using d by (simp add: decompose_def)
  qed
qed

lemma has_class_wrap_char:
  "has_class ''letter'' (wrap_char c) \<and> has_class ''letter--space'' (wrap_char c) = (c = 0x20)"
  by (simp add: has_class_def wrap_char_def)

text \<open>
  Claim C7.  Decomposing is idempotent: run on the title it has produced, it gives back
  the same title and the same letters, so no glyph is made twice.  A title that already
  holds glyph elements (elements of class \<^verbatim>\<open>letter\<close>) is left exactly as it is, and its
  letters are those of its glyph elements that are not marked \<^verbatim>\<open>letter--space\<close>.  A title
  without glyph elements gets one span per code unit of its text content, whatever
  nodes hold that text; the letters are the spans of the code units that are not
  spaces, in order.  Every span made has the class \<^verbatim>\<open>letter\<close>, the span of a space and
  no other is marked \<^verbatim>\<open>letter--space\<close>, and no marked span is ever among the letters.
\<close>

theorem decompose_idempotent:
  "decompose (fst (decompose title)) = decompose title
   \<and> length (snd (decompose (fst (decompose title)))) = length (snd (decompose title))
   \<and> (querySelectorAll sel_letter title \<noteq> [] \<longrightarrow>
        decompose title = (title, querySelectorAll sel_letter_not_space title))
   \<and> (querySelectorAll sel_letter title = [] \<longrightarrow>
        decompose title =
          (map wrap_char (concat (map textContent title)),
           map wrap_char (filter (\<lambda>c. c \<noteq> 0x20) (concat (map textContent title)))))
   \<and> filter (has_class ''letter--space'') (snd (decompose title)) = []
   \<and> decompose [TextNode str] =
       (map wrap_char str, map wrap_char (filter (\<lambda>c. c \<noteq> 0x20) str))
   \<and> has_class ''letter'' (wrap_char c)
   \<and> has_class ''letter--space'' (wrap_char c) = (c = 0x20)"
proof -
  have "filter (has_class ''letter--space'') (snd (decompose title)) = []"
    by (simp add: decompose_def Let_def qsa_not_space_no_space_glyph)
  moreover have "length (snd (decompose (fst (decompose title)))) = length (snd (decompose title))"
    by (simp only: decompose_again)
  ultimately show ?thesis
    using decompose_again decompose_text decompose_fresh decompose_reuse has_class_wrap_char
    by blast
qed

text \<open>
  The text AB CD becomes five spans, the third marked as a space, and four letters; a
  carriage return would come out as a line feed.  The title the Hero component renders
  is kept as it is, spacer included, and its letters are its two glyphs.  A second run
  changes neither.
\<close>

theorem decompose_idempotent_witness:
  "querySelectorAll sel_letter title_AB_CD = []
   \<and> decompose title_AB_CD =
       ([Element [''letter''] [TextNode [0x41]], Element [''letter''] [TextNode [0x42]],
         Element [''letter'', ''letter--space''] [TextNode [0x20]],
         Element [''letter''] [TextNode [0x43]], Element [''letter''] [TextNode [0x44]]],
        [Element [''letter''] [TextNode [0x41]], Element [''letter''] [TextNode [0x42]],
         Element [''letter''] [TextNode [0x43]], Element [''letter''] [TextNode [0x44]]])
   \<and> decompose (fst (decompose title_AB_CD)) = decompose title_AB_CD
   \<and> querySelectorAll sel_letter title_rendered = [glyph_R, glyph_S]
   \<and> decompose title_rendered = (title_rendered, [glyph_R, glyph_S])
   \<and> decompose (fst (decompose title_rendered)) = decompose title_rendered
   \<and> wrap_char 0x0D = Element [''letter''] [TextNode [0x0A]]"
proof -
  have fresh: "querySelectorAll sel_letter title_AB_CD = []"
    by (simp add: querySelectorAll_def title_AB_CD_def)
  have found: "querySelectorAll sel_letter title_rendered = [glyph_R, glyph_S]"
    by (simp add: querySelectorAll_def title_rendered_def glyph_R_def glyph_S_def sel_letter_def)
  have letters: "querySelectorAll sel_letter_not_space title_rendered = [glyph_R, glyph_S]"
    by (simp add: querySelectorAll_def title_rendered_def glyph_R_def glyph_S_def
          sel_letter_not_space_def)
  from fresh decompose_idempotent[where title = title_AB_CD]
  have 1: "decompose title_AB_CD =
          (map wrap_char (concat (map textContent title_AB_CD)),
           map wrap_char (filter (\<lambda>c. c \<noteq> 0x20) (concat (map textContent title_AB_CD))))"
    by blast
  from found decompose_idempotent[where title = title_rendered]
  have 2: "decompose title_rendered = (title_rendered, querySelectorAll sel_letter_not_space title_rendered)"
    by simp
  from decompose_idempotent[where title = title_AB_CD]
  have 3: "decompose (fst (decompose title_AB_CD)) = decompose title_AB_CD"
    by blast
  from decompose_idempotent[where title = title_rendered]
  have 4: "decompose (fst (decompose title_rendered)) = decompose title_rendered"
    by blast
  have 5: "wrap_char 0x0D = Element [''letter''] [TextNode [0x0A]]"
    by (simp add: wrap_char_def)
  have 6: "map wrap_char (concat (map textContent title_AB_CD)) =
       [Element [''letter''] [TextNode [0x41]], Element [''letter''] [TextNode [0x42]],
         Element [''letter'', ''letter--space''] [TextNode [0x20]],
         Element [''letter''] [TextNode [0x43]], Element [''letter''] [TextNode [0x44]]]"
    by (simp add: title_AB_CD_def wrap_char_def)
  have 7: "map wrap_char (filter (\<lambda>c. c \<noteq> 0x20) (concat (map textContent title_AB_CD))) =
        [Element [''letter''] [TextNode [0x41]], Element [''letter''] [TextNode [0x42]],
         Element [''letter''] [TextNode [0x43]], Element [''letter''] [TextNode [0x44]]]"
    by (simp add: title_AB_CD_def wrap_char_def)
  show ?thesis
    using fresh found letters 1 2 3 4 5 6 7 by simp
qed

subsection \<open>The early returns of the effect\<close>





section \<open>The comet network: theorems\<close>

subsection \<open>Distances\<close>

lemma dist_gt_iff_not_le: "dist_gt d c = (\<not> dist_le d c)"
  by (cases d) auto

lemma dist_le_getDistance_Some:
  "dist_le (getDistance a b) c \<Longrightarrow> \<exists>p q. a = Some p \<and> b = Some q"
  by (auto simp: getDistance_def split: option.splits)

text \<open>
  Claim C9.  \<^verbatim>\<open>getDistance\<close> returns a value for every pair of arguments; the value is
  \<^verbatim>\<open>Infinity\<close> exactly when one of them is missing.  For a missing point the test
  \<open>distance <= connectDistance\<close> of the spawn search is false and the test
  \<open>distance > connectDistance\<close> is true, whatever the other point and the (finite)
  \<open>connectDistance\<close> are.
\<close>

theorem getDistance_total:
  "getDistance None q = Infinity \<and> getDistance p None = Infinity
   \<and> (getDistance p q = Infinity) = (p = None \<or> q = None)
   \<and> dist_le (getDistance None q) c = False \<and> dist_le (getDistance p None) c = False
   \<and> dist_gt (getDistance None q) c \<and> dist_gt (getDistance p None) c"
  by (auto simp: getDistance_def Let_def split: option.splits)

subsection \<open>The two loops of the search\<close>

lemma distinct_loop_stop:
  "\<not> (p1 = p2 \<and> a < maxAttempts) \<Longrightarrow> distinct_loop rnd n p1 p2 a k = (p2, a, k)"
  by (subst distinct_loop.simps) auto

lemma distinct_loop_step:
  "p1 = p2 \<Longrightarrow> a < maxAttempts \<Longrightarrow>
   distinct_loop rnd n p1 p2 a k = distinct_loop rnd n p1 (random_index rnd k n) (a + 1) (k + 1)"
  by (subst distinct_loop.simps) simp

lemma distance_loop_stop:
  "\<not> (dist_gt (getDistance (js_index points p1) (js_index points p2)) (connectDistance cfg)
        \<and> a < maxAttempts) \<Longrightarrow>
   distance_loop cfg rnd points p1 p2 a k = (p1, p2, a, k)"
  by (subst distance_loop.simps) auto

lemma distance_loop_step:
  "dist_gt (getDistance (js_index points p1) (js_index points p2)) (connectDistance cfg) \<Longrightarrow>
   a < maxAttempts \<Longrightarrow>
   distinct_loop rnd (length points) (random_index rnd k (length points))
      (random_index rnd (k + 1) (length points)) 0 (k + 2) = (p2', ia, k') \<Longrightarrow>
   distance_loop cfg rnd points p1 p2 a k =
     (if random_index rnd k (length points) = p2'
      then (random_index rnd k (length points), p2', maxAttempts, k')
      else distance_loop cfg rnd points (random_index rnd k (length points)) p2' (a + 1) k')"
  by (subst distance_loop.simps) (simp add: Let_def)

text \<open>The inner loop makes one draw per round and at most \<open>maxAttempts\<close> rounds.\<close>

lemma distinct_loop_bound:
  "distinct_loop rnd n p1 p2 a k = (p2', a', k') \<Longrightarrow> a \<le> maxAttempts \<Longrightarrow>
     a' \<le> maxAttempts \<and> a \<le> a' \<and> k' = k + (a' - a)"
proof (induction rnd n p1 p2 a k rule: distinct_loop.induct)
  case (1 rnd n p1Index p2Index attempts k)
  show ?case
  proof (cases "p1Index = p2Index \<and> attempts < maxAttempts")
    case True
    then have "distinct_loop rnd n p1Index (random_index rnd k n) (attempts + 1) (k + 1)
                 = (p2', a', k')"
      using "1.prems"(1) distinct_loop_step[of p1Index p2Index attempts rnd n k] by simp
    moreover have "attempts + 1 \<le> maxAttempts" using True by simp
    ultimately have "a' \<le> maxAttempts \<and> attempts + 1 \<le> a'
                     \<and> k' = k + 1 + (a' - (attempts + 1))"
      using "1.IH"[OF True] by blast
    then show ?thesis by auto
  next
    case False
    then have "(p2Index, attempts, k) = (p2', a', k')"
      using "1.prems"(1) distinct_loop_stop[OF False, of rnd n k] by simp
    then show ?thesis using "1.prems"(2) by auto
  qed
qed

text \<open>
  The outer loop: the counter stays within \<open>maxAttempts\<close>, the cursor never goes back,
  and a round costs at most \<open>maxAttempts + 2\<close> draws.
\<close>

lemma distance_loop_bound:
  "distance_loop cfg rnd points p1 p2 a k = (q1, q2, a', k') \<Longrightarrow> a \<le> maxAttempts \<Longrightarrow>
     a' \<le> maxAttempts \<and> a \<le> a' \<and> k \<le> k'
     \<and> k' + a * (maxAttempts + 2) \<le> k + maxAttempts * (maxAttempts + 2)"
proof (induction cfg rnd points p1 p2 a k rule: distance_loop.induct)
  case (1 cfg rnd points p1Index p2Index attempts k)
  let ?c = "dist_gt (getDistance (js_index points p1Index) (js_index points p2Index))
              (connectDistance cfg) \<and> attempts < maxAttempts"
  show ?case
  proof (cases ?c)
    case False
    then have "(p1Index, p2Index, attempts, k) = (q1, q2, a', k')"
      using "1.prems"(1) distance_loop_stop[OF False, of rnd k] by simp
    moreover have "attempts * (maxAttempts + 2) \<le> maxAttempts * (maxAttempts + 2)"
      using "1.prems"(2) by (intro mult_le_mono1)
    ultimately show ?thesis using "1.prems"(2) by auto
  next
    case True
    define r1 where "r1 = random_index rnd k (length points)"
    define r2 where "r2 = random_index rnd (k + 1) (length points)"
    obtain r2' ia kk where dl: "distinct_loop rnd (length points) r1 r2 0 (k + 2) = (r2', ia, kk)"
      by (cases "distinct_loop rnd (length points) r1 r2 0 (k + 2)") auto
    from distinct_loop_bound[OF dl] have kk: "ia \<le> maxAttempts" "kk = k + 2 + ia" by auto
    have lt: "attempts < maxAttempts" using True by simp
    have step: "distance_loop cfg rnd points p1Index p2Index attempts k =
       (if r1 = r2' then (r1, r2', maxAttempts, kk)
        else distance_loop cfg rnd points r1 r2' (attempts + 1) kk)"
      using distance_loop_step[of points p1Index p2Index cfg attempts rnd k r2' ia kk] True dl
      by (simp add: r1_def r2_def)
    show ?thesis
    proof (cases "r1 = r2'")
      case True
      have "(r1, r2', maxAttempts, kk) = (q1, q2, a', k')"
        using "1.prems"(1) step True by simp
      then have "a' = maxAttempts" "k' = kk" by auto
      moreover have "kk + attempts * (maxAttempts + 2) \<le> k + maxAttempts * (maxAttempts + 2)"
      proof -
        have "(attempts + 1) * (maxAttempts + 2) \<le> maxAttempts * (maxAttempts + 2)"
          using lt by (intro mult_le_mono1) simp
        then show ?thesis using kk by simp
      qed
      ultimately show ?thesis using lt kk by simp
    next
      case False
      have rec: "distance_loop cfg rnd points r1 r2' (attempts + 1) kk = (q1, q2, a', k')"
        using "1.prems"(1) step False by simp
      have "a' \<le> maxAttempts \<and> attempts + 1 \<le> a' \<and> kk \<le> k'
            \<and> k' + (attempts + 1) * (maxAttempts + 2) \<le> kk + maxAttempts * (maxAttempts + 2)"
        using "1.IH"[OF \<open>?c\<close>, of "random_index rnd k (length points)"
            "random_index rnd (k + 1) (length points)" r2' "(ia, kk)" ia kk] dl False rec lt
        by (simp add: r1_def r2_def)
      then show ?thesis using kk by simp
    qed
  qed
qed

lemma spawn_search_bound:
  assumes "spawn_search cfg rnd points k0 = (i1, i2, a, k)"
  shows "a \<le> maxAttempts \<and> k0 \<le> k
         \<and> k \<le> k0 + 2 + maxAttempts + maxAttempts * (maxAttempts + 2)"
proof -
  define r1 where "r1 = random_index rnd k0 (length points)"
  define r2 where "r2 = random_index rnd (k0 + 1) (length points)"
  obtain r2' ia kk where dl: "distinct_loop rnd (length points) r1 r2 0 (k0 + 2) = (r2', ia, kk)"
    by (cases "distinct_loop rnd (length points) r1 r2 0 (k0 + 2)") auto
  from distinct_loop_bound[OF dl] have kk: "ia \<le> maxAttempts" "kk = k0 + 2 + ia" by auto
  show ?thesis
  proof (cases "r1 = r2'")
    case True
    then have "(i1, i2, a, k) = (r1, r2', ia, kk)"
      using assms dl by (simp add: spawn_search_def Let_def r1_def r2_def)
    then show ?thesis using kk by simp
  next
    case False
    then have d: "distance_loop cfg rnd points r1 r2' 0 kk = (i1, i2, a, k)"
      using assms dl by (simp add: spawn_search_def Let_def r1_def r2_def)
    from distance_loop_bound[OF d] show ?thesis using kk by simp
  qed
qed

subsection \<open>What a call of spawnRandomLine can do\<close>

lemma spawnRandomLine_search:
  "spawnRandomLine cfg rnd s =
     (if canvasRef s = None \<or> length (pointsRef s) < 2
         \<or> int (length (activeLinesRef s)) \<ge> maxActiveLines cfg
      then s
      else case spawn_search cfg rnd (pointsRef s) (rng_pos s) of
        (p1Index, p2Index, attempts, k) \<Rightarrow>
          if p1Index \<noteq> p2Index
             \<and> dist_le (getDistance (js_index (pointsRef s) p1Index) (js_index (pointsRef s) p2Index))
                  (connectDistance cfg)
          then
            (case (js_index (pointsRef s) p1Index, js_index (pointsRef s) p2Index) of
               (Some p1, Some p2) \<Rightarrow>
                 (case new_AnimatedLine cfg rnd p1 p2 (s\<lparr> rng_pos := k \<rparr>) of
                    (newLine, s2) \<Rightarrow> s2\<lparr> activeLinesRef := activeLinesRef s2 @ [newLine] \<rparr>)
             | _ \<Rightarrow> s\<lparr> rng_pos := k \<rparr>)
          else s\<lparr> rng_pos := k \<rparr>)"
  by (auto simp: spawnRandomLine_def spawn_search_def Let_def split: prod.splits)

text \<open>
  A call leaves the state as it is, or moves only the cursor of the draws, or makes one
  comet between two points that exist, are different and pass the distance test.
\<close>

lemma spawnRandomLine_outcome:
  assumes ss: "spawn_search cfg rnd (pointsRef s) (rng_pos s) = (i1, i2, a, k)"
  shows "spawnRandomLine cfg rnd s = s
   \<or> spawnRandomLine cfg rnd s = s\<lparr> rng_pos := k \<rparr>
   \<or> (\<exists>p1 p2 c. int (length (activeLinesRef s)) < maxActiveLines cfg
        \<and> i1 \<noteq> i2
        \<and> dist_le (getDistance (js_index (pointsRef s) i1) (js_index (pointsRef s) i2))
             (connectDistance cfg)
        \<and> dist_le (getDistance (Some p1) (Some p2)) (connectDistance cfg)
        \<and> spawnRandomLine cfg rnd s =
            s\<lparr> rng_pos := k + 1,
               line_objs := (line_objs s)(next_obj s \<mapsto>
                 \<lparr> line_p1 = p1, line_p2 = p2, headProgress = 0, tailStartProgress = 0,
                   isVisible = True, line_color = c \<rparr>),
               next_obj := next_obj s + 1,
               line_tweens := line_tweens s @ [next_obj s],
               activeLinesRef := activeLinesRef s @ [next_obj s] \<rparr>)"
proof (cases "canvasRef s = None \<or> length (pointsRef s) < 2
         \<or> int (length (activeLinesRef s)) \<ge> maxActiveLines cfg")
  case True
  then have "spawnRandomLine cfg rnd s = s"
    by (simp only: spawnRandomLine_search if_True)
  then show ?thesis by blast
next
  case False
  show ?thesis
  proof (cases "i1 \<noteq> i2
       \<and> dist_le (getDistance (js_index (pointsRef s) i1) (js_index (pointsRef s) i2))
            (connectDistance cfg)")
    case no: False
    have "spawnRandomLine cfg rnd s = s\<lparr> rng_pos := k \<rparr>"
      using False no ss by (simp only: spawnRandomLine_search) auto
    then show ?thesis by blast
  next
    case yes: True
    then obtain p1 p2 where pts:
      "js_index (pointsRef s) i1 = Some p1" "js_index (pointsRef s) i2 = Some p2"
      using dist_le_getDistance_Some by blast
    have "spawnRandomLine cfg rnd s =
            s\<lparr> rng_pos := k + 1,
               line_objs := (line_objs s)(next_obj s \<mapsto>
                 \<lparr> line_p1 = p1, line_p2 = p2, headProgress = 0, tailStartProgress = 0,
                   isVisible = True,
                   line_color = js_index (lineColors cfg)
                                  (random_index rnd k (length (lineColors cfg))) \<rparr>),
               next_obj := next_obj s + 1,
               line_tweens := line_tweens s @ [next_obj s],
               activeLinesRef := activeLinesRef s @ [next_obj s] \<rparr>"
      using False yes ss pts
      by (simp only: spawnRandomLine_search) (simp add: new_AnimatedLine_def Let_def)
    moreover have "dist_le (getDistance (Some p1) (Some p2)) (connectDistance cfg)"
      using yes pts by simp
    moreover have "int (length (activeLinesRef s)) < maxActiveLines cfg"
      using False by simp
    ultimately show ?thesis using yes by blast
  qed
qed

subsection \<open>Runs on the concrete inputs\<close>

lemma createPoints_loop_3:
  "createPoints_loop cfg rnd c k i 3 = createPoints_loop cfg rnd c k i (Suc (Suc (Suc 0)))"
  by (simp add: numeral_3_eq_3)

lemma initialize_near: "initialize cfg0 rnd_near net_unmounted = net_mounted"
  by (simp add: initialize_def net_unmounted_def net_mounted_def cfg0_def resizeCanvas_def
      createPoints_def createPoints_loop_3 points3_def rnd_near_def)

lemma initialize_far: "initialize cfg0 rnd_far net_unmounted = net_mounted"
  by (simp add: initialize_def net_unmounted_def net_mounted_def cfg0_def resizeCanvas_def
      createPoints_def createPoints_loop_3 points3_def rnd_far_def)

lemma length_points3: "length points3 = 3"
  by (simp add: points3_def)

lemma points3_at:
  "js_index points3 0 = Some \<lparr> pt_x = 0, pt_y = 0, pt_radius = 1.5, pt_id = 0 \<rparr>"
  "js_index points3 1 = Some \<lparr> pt_x = 900, pt_y = 0, pt_radius = 1.5, pt_id = 1 \<rparr>"
  "js_index points3 2 = Some \<lparr> pt_x = 0, pt_y = 5, pt_radius = 1.5, pt_id = 2 \<rparr>"
  by (simp_all add: js_index_def points3_def)

lemma distance_0_1: "getDistance (js_index points3 0) (js_index points3 1) = Finite 900"
  by (simp add: getDistance_def points3_at Let_def)

lemma distance_0_2: "getDistance (js_index points3 0) (js_index points3 2) = Finite 5"
  by (simp add: getDistance_def points3_at Let_def)

lemma cfg0_sel:
  "maxActiveLines cfg0 = 20" "connectDistance cfg0 = 500" "length (lineColors cfg0) = 4"
  "cometTailLength cfg0 = 7.35" "pointRadius cfg0 = 1.5"
  by (simp_all add: cfg0_def)

lemma net_mounted_sel:
  "pointsRef net_mounted = points3" "rng_pos net_mounted = 6"
  "canvasRef net_mounted = Some \<lparr> canvas_width = 1000, canvas_height = 10, drawn = [] \<rparr>"
  "activeLinesRef net_mounted = []" "next_obj net_mounted = 0"
  by (simp_all add: net_mounted_def)

lemma search_near: "spawn_search cfg0 rnd_near points3 6 = (0, 2, 0, 8)"
  by (simp add: spawn_search_def Let_def random_index_def rnd_near_def length_points3
       distinct_loop.simps distance_loop.simps distance_0_2 cfg0_sel)

lemma random_index_far_even: "6 \<le> k \<Longrightarrow> even k \<Longrightarrow> random_index rnd_far k 3 = 0"
  by (auto simp: random_index_def rnd_far_def)

lemma random_index_far_odd:
  "6 \<le> k \<Longrightarrow> odd k \<Longrightarrow> k \<noteq> 107 \<Longrightarrow> random_index rnd_far k 3 = 1"
  by (auto simp: random_index_def rnd_far_def)

lemma random_index_far_107: "random_index rnd_far 107 3 = 2"
  by (simp add: random_index_def rnd_far_def)

lemma search_far: "spawn_search cfg0 rnd_far points3 6 = (0, 2, 50, 108)"
  by (simp add: spawn_search_def Let_def length_points3 random_index_far_even
       random_index_far_odd random_index_far_107 distinct_loop.simps distance_loop.simps
       distance_0_1 distance_0_2 cfg0_sel maxAttempts_def)

lemma random_index_never_even: "6 \<le> k \<Longrightarrow> even k \<Longrightarrow> random_index rnd_never k 3 = 0"
  by (auto simp: random_index_def rnd_never_def)

lemma random_index_never_odd: "6 \<le> k \<Longrightarrow> odd k \<Longrightarrow> random_index rnd_never k 3 = 1"
  by (auto simp: random_index_def rnd_never_def)

lemma search_never: "spawn_search cfg0 rnd_never points3 6 = (0, 1, 50, 108)"
  by (simp add: spawn_search_def Let_def length_points3 random_index_never_even
       random_index_never_odd distinct_loop.simps distance_loop.simps
       distance_0_1 cfg0_sel maxAttempts_def)

lemma spawn_near: "spawnRandomLine cfg0 rnd_near net_mounted = net_flying"
  apply (simp only: spawnRandomLine_search)
  apply (simp add: net_mounted_sel search_near cfg0_sel length_points3 points3_at
           getDistance_def new_AnimatedLine_def Let_def)
  apply (simp add: net_mounted_def net_flying_def comet02_def cfg0_def random_index_def
           rnd_near_def js_index_def)
  done

subsection \<open>Limits on spawning\<close>

text \<open>
  Claim C3.  In every state of the engine: if the number of active comets has reached
  \<open>maxActiveLines\<close>, \<^verbatim>\<open>spawnRandomLine\<close> changes nothing; the number of active comets after
  a call is never above the larger of \<open>maxActiveLines\<close> and what it was before; and a
  call either leaves the active comets and the comet objects as they are, or adds one
  new comet whose two end points are at a distance of at most \<open>connectDistance\<close>.
\<close>

theorem spawnRandomLine_respects_limits:
  "(int (length (activeLinesRef s)) \<ge> maxActiveLines cfg \<longrightarrow> spawnRandomLine cfg rnd s = s)
   \<and> int (length (activeLinesRef (spawnRandomLine cfg rnd s)))
        \<le> max (int (length (activeLinesRef s))) (maxActiveLines cfg)
   \<and> ((activeLinesRef (spawnRandomLine cfg rnd s) = activeLinesRef s
        \<and> line_objs (spawnRandomLine cfg rnd s) = line_objs s)
       \<or> (\<exists>l. activeLinesRef (spawnRandomLine cfg rnd s) = activeLinesRef s @ [next_obj s]
              \<and> line_objs (spawnRandomLine cfg rnd s) = (line_objs s)(next_obj s \<mapsto> l)
              \<and> dist_le (getDistance (Some (line_p1 l)) (Some (line_p2 l))) (connectDistance cfg)
              \<and> sqrt ((pt_x (line_p1 l) - pt_x (line_p2 l)) * (pt_x (line_p1 l) - pt_x (line_p2 l))
                     + (pt_y (line_p1 l) - pt_y (line_p2 l)) * (pt_y (line_p1 l) - pt_y (line_p2 l)))
                  \<le> connectDistance cfg))"
proof -
  have g: "int (length (activeLinesRef s)) \<ge> maxActiveLines cfg \<longrightarrow> spawnRandomLine cfg rnd s = s"
    by (simp add: spawnRandomLine_def)
  obtain i1 i2 a k where ss: "spawn_search cfg rnd (pointsRef s) (rng_pos s) = (i1, i2, a, k)"
    by (cases "spawn_search cfg rnd (pointsRef s) (rng_pos s)") auto
  from spawnRandomLine_outcome[OF ss]
  consider (same) "spawnRandomLine cfg rnd s = s"
    | (cursor) "spawnRandomLine cfg rnd s = s\<lparr> rng_pos := k \<rparr>"
    | (made) p1 p2 c where "int (length (activeLinesRef s)) < maxActiveLines cfg"
        "dist_le (getDistance (Some p1) (Some p2)) (connectDistance cfg)"
        "spawnRandomLine cfg rnd s =
            s\<lparr> rng_pos := k + 1,
               line_objs := (line_objs s)(next_obj s \<mapsto>
                 \<lparr> line_p1 = p1, line_p2 = p2, headProgress = 0, tailStartProgress = 0,
                   isVisible = True, line_color = c \<rparr>),
               next_obj := next_obj s + 1,
               line_tweens := line_tweens s @ [next_obj s],
               activeLinesRef := activeLinesRef s @ [next_obj s] \<rparr>"
    by blast
  then show ?thesis
  proof cases
    case same
    then show ?thesis using g by simp
  next
    case cursor
    then show ?thesis using g by simp
  next
    case made
    let ?l = "\<lparr> line_p1 = p1, line_p2 = p2, headProgress = 0, tailStartProgress = 0,
                   isVisible = True, line_color = c \<rparr>"
    have "sqrt ((pt_x p1 - pt_x p2) * (pt_x p1 - pt_x p2)
                + (pt_y p1 - pt_y p2) * (pt_y p1 - pt_y p2)) \<le> connectDistance cfg"
      using made(2) by (simp add: getDistance_def Let_def)
    then have "activeLinesRef (spawnRandomLine cfg rnd s) = activeLinesRef s @ [next_obj s]
              \<and> line_objs (spawnRandomLine cfg rnd s) = (line_objs s)(next_obj s \<mapsto> ?l)
              \<and> dist_le (getDistance (Some (line_p1 ?l)) (Some (line_p2 ?l))) (connectDistance cfg)
              \<and> sqrt ((pt_x (line_p1 ?l) - pt_x (line_p2 ?l)) * (pt_x (line_p1 ?l) - pt_x (line_p2 ?l))
                     + (pt_y (line_p1 ?l) - pt_y (line_p2 ?l)) * (pt_y (line_p1 ?l) - pt_y (line_p2 ?l)))
                  \<le> connectDistance cfg"
      using made by simp
    then have "\<exists>l. activeLinesRef (spawnRandomLine cfg rnd s) = activeLinesRef s @ [next_obj s]
              \<and> line_objs (spawnRandomLine cfg rnd s) = (line_objs s)(next_obj s \<mapsto> l)
              \<and> dist_le (getDistance (Some (line_p1 l)) (Some (line_p2 l))) (connectDistance cfg)
              \<and> sqrt ((pt_x (line_p1 l) - pt_x (line_p2 l)) * (pt_x (line_p1 l) - pt_x (line_p2 l))
                     + (pt_y (line_p1 l) - pt_y (line_p2 l)) * (pt_y (line_p1 l) - pt_y (line_p2 l)))
                  \<le> connectDistance cfg"
      by (rule exI)
    moreover have "int (length (activeLinesRef (spawnRandomLine cfg rnd s)))
        \<le> max (int (length (activeLinesRef s))) (maxActiveLines cfg)"
      using made(1,3) by simp
    ultimately show ?thesis using g by blast
  qed
qed

text \<open>
  With a limit of one comet and one comet in flight the call is a no-op; with the limit
  of twenty, the call on the mounted engine adds the comet between the points 0 and 2.
\<close>

theorem spawnRandomLine_respects_limits_witness:
  "int (length (activeLinesRef net_flying)) \<ge> maxActiveLines (cfg0\<lparr> maxActiveLines := 1 \<rparr>)
   \<and> spawnRandomLine (cfg0\<lparr> maxActiveLines := 1 \<rparr>) rnd_near net_flying = net_flying
   \<and> int (length (activeLinesRef (spawnRandomLine cfg0 rnd_near net_mounted))) \<le> 20"
proof -
  have full: "int (length (activeLinesRef net_flying)) \<ge> maxActiveLines (cfg0\<lparr> maxActiveLines := 1 \<rparr>)"
    by (simp add: net_flying_def)
  from full spawnRandomLine_respects_limits[where s = net_flying
      and cfg = "cfg0\<lparr> maxActiveLines := 1 \<rparr>" and rnd = rnd_near]
  have 1: "spawnRandomLine (cfg0\<lparr> maxActiveLines := 1 \<rparr>) rnd_near net_flying = net_flying"
    by blast
  from spawnRandomLine_respects_limits[where s = net_mounted and cfg = cfg0 and rnd = rnd_near]
  have "int (length (activeLinesRef (spawnRandomLine cfg0 rnd_near net_mounted)))
          \<le> max (int (length (activeLinesRef net_mounted))) (maxActiveLines cfg0)"
    by blast
  then have 2: "int (length (activeLinesRef (spawnRandomLine cfg0 rnd_near net_mounted))) \<le> 20"
    by (simp add: net_mounted_sel cfg0_sel)
  show ?thesis using full 1 2 by blast
qed

subsection \<open>The budget of the search\<close>

text \<open>
  Claim C6, as stated, fails.  On the mounted engine with the draws \<open>rnd_far\<close> the first
  pair and the next 49 pairs are the points 0 and 1, which are 900 apart; the loop
  re-draws a pair for the 50th time, the counter \<open>attempts\<close> reaches \<open>maxAttempts\<close>, and
  the pair of that round, the 51st of the call, is accepted and becomes a comet.  The
  cursor has moved from 6 to 108: 51 pairs of two draws each.
\<close>

theorem spawn_search_51st_pair:
  "maxAttempts = 50
   \<and> spawn_search cfg0 rnd_far (pointsRef net_mounted) (rng_pos net_mounted) = (0, 2, 50, 108)
   \<and> activeLinesRef net_mounted = []
   \<and> activeLinesRef (spawnRandomLine cfg0 rnd_far net_mounted) = [0]"
proof -
  have "activeLinesRef (spawnRandomLine cfg0 rnd_far net_mounted) = [0]"
    by (simp only: spawnRandomLine_search)
       (simp add: net_mounted_sel search_far cfg0_sel length_points3 points3_at
          getDistance_def new_AnimatedLine_def Let_def)
  then show ?thesis
    by (simp add: maxAttempts_def net_mounted_sel search_far)
qed

text \<open>
  Claim C6, amended.  A call of \<^verbatim>\<open>spawnRandomLine\<close> draws a first pair and then re-draws
  a pair at most \<open>maxAttempts\<close> times (the counter \<open>attempts\<close> ends at most at
  \<open>maxAttempts\<close>, so at most \<open>maxAttempts + 1\<close> pairs are tested against
  \<open>connectDistance\<close>).  The search always ends: it makes at most
  \<open>2 + maxAttempts + maxAttempts * (maxAttempts + 2)\<close> draws, and the call one more for
  the colour of a comet.  If the search ends on two equal indices or on a pair farther
  apart than \<open>connectDistance\<close>, the call creates no comet and raises nothing: the state
  is as before, the cursor of the draws apart.
\<close>

theorem spawn_search_bounded:
  "(case spawn_search cfg rnd (pointsRef s) (rng_pos s) of
      (p1Index, p2Index, attempts, k) \<Rightarrow>
        attempts \<le> maxAttempts
        \<and> k \<le> rng_pos s + 2 + maxAttempts + maxAttempts * (maxAttempts + 2)
        \<and> rng_pos (spawnRandomLine cfg rnd s) \<le> k + 1
        \<and> (p1Index = p2Index
            \<or> dist_gt (getDistance (js_index (pointsRef s) p1Index) (js_index (pointsRef s) p2Index))
                 (connectDistance cfg)
            \<longrightarrow> spawnRandomLine cfg rnd s = s \<or> spawnRandomLine cfg rnd s = s\<lparr> rng_pos := k \<rparr>))"
proof -
  obtain i1 i2 a k where ss: "spawn_search cfg rnd (pointsRef s) (rng_pos s) = (i1, i2, a, k)"
    by (cases "spawn_search cfg rnd (pointsRef s) (rng_pos s)") auto
  note b = spawn_search_bound[OF ss]
  note out = spawnRandomLine_outcome[OF ss]
  have pos: "rng_pos (spawnRandomLine cfg rnd s) \<le> k + 1"
    using out b by auto
  have quiet: "spawnRandomLine cfg rnd s = s \<or> spawnRandomLine cfg rnd s = s\<lparr> rng_pos := k \<rparr>"
    if "i1 = i2 \<or> dist_gt (getDistance (js_index (pointsRef s) i1) (js_index (pointsRef s) i2))
                 (connectDistance cfg)"
    using that out by (auto simp: dist_gt_iff_not_le)
  show ?thesis using b pos quiet by (simp add: ss)
qed

text \<open>
  With the draws \<open>rnd_never\<close> every pair is the points 0 and 1: the search gives up
  after 50 re-draws and the call only moves the cursor.
\<close>

theorem spawn_search_bounded_witness:
  "spawn_search cfg0 rnd_never (pointsRef net_mounted) (rng_pos net_mounted) = (0, 1, 50, 108)
   \<and> dist_gt (getDistance (js_index (pointsRef net_mounted) 0) (js_index (pointsRef net_mounted) 1))
        (connectDistance cfg0)
   \<and> spawnRandomLine cfg0 rnd_never net_mounted = net_mounted\<lparr> rng_pos := 108 \<rparr>"
proof -
  have ss: "spawn_search cfg0 rnd_never (pointsRef net_mounted) (rng_pos net_mounted) = (0, 1, 50, 108)"
    by (simp add: net_mounted_sel search_never)
  have far: "dist_gt (getDistance (js_index (pointsRef net_mounted) 0) (js_index (pointsRef net_mounted) 1))
        (connectDistance cfg0)"
    by (simp add: net_mounted_sel distance_0_1 cfg0_sel)
  from spawn_search_bounded[where s = net_mounted and cfg = cfg0 and rnd = rnd_never] far
  have "spawnRandomLine cfg0 rnd_never net_mounted = net_mounted
        \<or> spawnRandomLine cfg0 rnd_never net_mounted = net_mounted\<lparr> rng_pos := 108 \<rparr>"
    by (simp add: ss)
  moreover have "rng_pos (spawnRandomLine cfg0 rnd_never net_mounted) \<noteq> rng_pos net_mounted"
    by (simp only: spawnRandomLine_search)
       (simp add: net_mounted_sel search_never cfg0_sel distance_0_1 length_points3)
  ultimately have "spawnRandomLine cfg0 rnd_never net_mounted = net_mounted\<lparr> rng_pos := 108 \<rparr>"
    by auto
  then show ?thesis using ss far by blast
qed

subsection \<open>The end of a comet\<close>

text \<open>
  Claim C4.  When the timeline of a comet completes, its head progress is 1, the comet
  is marked invisible and is no longer in the active comets (every other comet stays,
  in order), and exactly one explosion is created: a new object at the target point of
  the comet, with the colour of the comet, the radius \<open>pointRadius\<close> and the opacity 0.8,
  appended to the active explosions, its tween started.
\<close>

theorem line_tween_complete_spawns_explosion:
  assumes "line_objs s this = Some l" and "this \<in> set (line_tweens s)"
  shows "line_objs (line_tween_complete cfg this s) this =
           Some (l\<lparr> headProgress := 1,
                    tailStartProgress := max 0 (1 - cometTailLength cfg),
                    isVisible := False \<rparr>)
         \<and> activeLinesRef (line_tween_complete cfg this s) =
             filter (\<lambda>line. line \<noteq> this) (activeLinesRef s)
         \<and> this \<notin> set (activeLinesRef (line_tween_complete cfg this s))
         \<and> activeExplosionsRef (line_tween_complete cfg this s) =
             activeExplosionsRef s @ [next_obj s]
         \<and> explosion_objs (line_tween_complete cfg this s) =
             (explosion_objs s)(next_obj s \<mapsto>
                \<lparr> ex_x = pt_x (line_p2 l), ex_y = pt_y (line_p2 l), ex_color = line_color l,
                  ex_radius = pointRadius cfg, ex_opacity = 0.8 \<rparr>)
         \<and> explosion_tweens (line_tween_complete cfg this s) = explosion_tweens s @ [next_obj s]
         \<and> this \<notin> set (line_tweens (line_tween_complete cfg this s))"
  using assms
  by (simp add: line_tween_complete_def set_headProgress_def AnimatedLine_onUpdate_def
        AnimatedLine_onComplete_def new_ExplosionEffect_def Let_def)

text \<open>The first comet of the concrete engine, completed.\<close>

theorem line_tween_complete_spawns_explosion_witness:
  "line_objs net_flying 0 = Some comet02 \<and> 0 \<in> set (line_tweens net_flying)
   \<and> activeLinesRef net_flying = [0]
   \<and> activeLinesRef (line_tween_complete cfg0 0 net_flying) = []
   \<and> activeExplosionsRef (line_tween_complete cfg0 0 net_flying) = [1]
   \<and> explosion_objs (line_tween_complete cfg0 0 net_flying) 1 =
        Some \<lparr> ex_x = 0, ex_y = 5, ex_color = Some ''rgba(255, 127, 80, 0.8)'',
               ex_radius = 1.5, ex_opacity = 0.8 \<rparr>"
proof -
  have a: "line_objs net_flying 0 = Some comet02" and b: "0 \<in> set (line_tweens net_flying)"
    by (simp_all add: net_flying_def)
  from line_tween_complete_spawns_explosion[OF a b, of cfg0]
  show ?thesis
    using a b by (simp add: net_flying_def comet02_def cfg0_def)
qed

subsection \<open>Drawing\<close>

text \<open>
  A comet or an explosion that has its colour is drawn without an exception; one that
  is drawn without its colour raises a TypeError after its path has been laid.  A frame
  never touches the two collections or the objects.
\<close>

lemma AnimatedLine_draw_coloured:
  "line_color l = Some color \<Longrightarrow> snd (AnimatedLine_draw cfg l) = None"
  by (simp add: AnimatedLine_draw_def Let_def)

lemma ExplosionEffect_draw_coloured:
  "ex_color e = Some color \<Longrightarrow> snd (ExplosionEffect_draw e) = None"
  by (simp add: ExplosionEffect_draw_def)

lemma AnimatedLine_draw_undefined_colour:
  "AnimatedLine_draw cfg0 (comet02\<lparr> headProgress := 1/2, line_color := None \<rparr>)
     = ([BeginPath, MoveTo 0 0, LineTo 0 (5/2)], Some TypeError)"
  by (simp add: AnimatedLine_draw_def comet02_def Let_def)

lemma updateNetwork_keeps_collections:
  "activeLinesRef (snd (updateNetwork cfg s)) = activeLinesRef s
   \<and> activeExplosionsRef (snd (updateNetwork cfg s)) = activeExplosionsRef s
   \<and> line_objs (snd (updateNetwork cfg s)) = line_objs s
   \<and> explosion_objs (snd (updateNetwork cfg s)) = explosion_objs s"
  by (simp add: updateNetwork_def split: option.splits prod.splits)

subsection \<open>After the clean-up\<close>

text \<open>
  The clean-up unsubscribes \<^verbatim>\<open>updateNetwork\<close> from the ticker and kills the spawn tween:
  a tick of the ticker and a repeat of the spawn tween change nothing afterwards.
\<close>

lemma ticker_tick_after_cleanup: "ticker_tick cfg (cleanup s) = (None, cleanup s)"
  by (simp add: ticker_tick_def cleanup_def)

lemma spawnInterval_repeat_after_cleanup: "spawnInterval_repeat cfg rnd (cleanup s) = cleanup s"
  by (simp add: spawnInterval_repeat_def cleanup_def)

text \<open>The clean-up leaves the tweens of the comets and explosions in flight.\<close>

lemma cleanup_keeps_tweens:
  "line_tweens (cleanup s) = line_tweens s \<and> explosion_tweens (cleanup s) = explosion_tweens s
   \<and> line_objs (cleanup s) = line_objs s"
  by (simp add: cleanup_def)

lemma line_tween_complete_after_cleanup:
  assumes "line_objs s this = Some l" and "this \<in> set (line_tweens s)"
  shows "activeExplosionsRef (line_tween_complete cfg this (cleanup s)) = [next_obj s]"
  using assms
  by (simp add: line_tween_complete_def set_headProgress_def AnimatedLine_onUpdate_def
        AnimatedLine_onComplete_def new_ExplosionEffect_def Let_def cleanup_def)

text \<open>
  Claim C1, on the code.  The engine is mounted, the spawn tween repeats once and a
  comet starts, then the component is torn down.  The clean-up has emptied both
  collections and nothing is subscribed, but the timeline of the comet is still in
  flight; when it completes, its \<^verbatim>\<open>onComplete\<close> puts a new explosion into the active
  explosions and starts the tween of that explosion.
\<close>

theorem callback_after_cleanup:
  "spawnInterval_repeat cfg0 rnd_near (initialize cfg0 rnd_near net_unmounted) = net_flying
   \<and> activeLinesRef (cleanup net_flying) = []
   \<and> activeExplosionsRef (cleanup net_flying) = []
   \<and> line_tweens (cleanup net_flying) = [0]
   \<and> activeExplosionsRef (line_tween_complete cfg0 0 (cleanup net_flying)) = [1]
   \<and> explosion_tweens (line_tween_complete cfg0 0 (cleanup net_flying)) = [1]
   \<and> line_tween_complete cfg0 0 (cleanup net_flying) \<noteq> cleanup net_flying"
proof -
  have 1: "spawnInterval_repeat cfg0 rnd_near (initialize cfg0 rnd_near net_unmounted) = net_flying"
    by (simp add: initialize_near spawnInterval_repeat_def spawn_near)
       (simp add: net_mounted_def)
  have 2: "activeLinesRef (cleanup net_flying) = [] \<and> activeExplosionsRef (cleanup net_flying) = []
           \<and> line_tweens (cleanup net_flying) = [0]"
    by (simp add: cleanup_def net_flying_def)
  have 3: "activeExplosionsRef (line_tween_complete cfg0 0 (cleanup net_flying)) = [1]
           \<and> explosion_tweens (line_tween_complete cfg0 0 (cleanup net_flying)) = [1]"
    by (simp add: line_tween_complete_def set_headProgress_def AnimatedLine_onUpdate_def
          AnimatedLine_onComplete_def new_ExplosionEffect_def Let_def cleanup_def net_flying_def)
  have "activeExplosionsRef (line_tween_complete cfg0 0 (cleanup net_flying))
          \<noteq> activeExplosionsRef (cleanup net_flying)"
    using 2 3 by simp
  then have 4: "line_tween_complete cfg0 0 (cleanup net_flying) \<noteq> cleanup net_flying"
    by auto
  show ?thesis using 1 2 3 4 by blast
qed

section \<open>The first Hero component: theorems\<close>

subsection \<open>The pass over the explosions\<close>

text \<open>
  Claim C8, on the code.  The frame loop of the first Hero component removes a
  finished explosion with \<^verbatim>\<open>splice\<close> inside \<^verbatim>\<open>forEach\<close>.  With a finished explosion in
  front of a younger one, the younger one moves to the index just visited and the pass
  ends without reaching it: it is neither updated nor drawn in that frame, where a pass
  that filters would have updated it (the life of its particles going from 1 to 0.96)
  and drawn its eight particles.
\<close>

theorem animate_skips_after_splice:
  "animate_explosions [dying, young] = ([young], [])
   \<and> explosions_pass_spec [dying, young] =
       ([Explosion_update young], Explosion_draw (Explosion_update young))
   \<and> length (Explosion_draw (Explosion_update young)) = 8
   \<and> particles (Explosion_update young) =
       replicate 8 \<lparr> part_x = None, part_y = None, vx = 1, vy = -1,
                      life = 0.96, size_px = 2 \<rparr>"
proof -
  have d: "particles (Explosion_update dying) = []"
    by (simp add: Explosion_update_def dying_def)
  have y: "particles (Explosion_update young) =
             replicate 8 \<lparr> part_x = None, part_y = None, vx = 1, vy = -1,
                            life = 0.96, size_px = 2 \<rparr>"
    by (simp add: Explosion_update_def young_def add_number_def)
  have 1: "animate_explosions [dying, young] = ([young], [])"
    by (simp add: animate_explosions_def explosions_forEach.simps d Explosion_draw_def
          splice1_def Let_def)
  have 2: "explosions_pass_spec [dying, young] =
       ([Explosion_update young], Explosion_draw (Explosion_update young))"
    by (simp add: explosions_pass_spec_def d y Explosion_draw_def)
  have 3: "length (Explosion_draw (Explosion_update young)) = 8"
    by (simp add: Explosion_draw_def y)
  show ?thesis using 1 2 3 y by blast
qed

subsection \<open>The scroll update of the inline variant\<close>

text \<open>
  Claim C2, on the code.  The inline letter animation of Hero.jsx draws the horizontal
  drift anew in every scroll update: two updates that see the same progress 1/2, one
  after the other on the same stream of draws, ask different \<open>x\<close> of the same letter.
\<close>

theorem Hero_onUpdate_redraws_drift:
  "Hero_onUpdate rnd_step 0 800 (1/2) [glyph_R] =
     [GsapTo glyph_R \<lparr> to_y = 600, to_x = -75, to_rotation = 45/2, to_opacity = 1/2 \<rparr>]
   \<and> Hero_onUpdate rnd_step 1 800 (1/2) [glyph_R] =
     [GsapTo glyph_R \<lparr> to_y = 600, to_x = 0, to_rotation = 45/2, to_opacity = 1/2 \<rparr>]"
  by (simp add: Hero_onUpdate_def Hero_letter_target_def rnd_step_def Let_def)

subsection \<open>The scroll update of the hook\<close>

text \<open>
  The hook, in contrast, draws the parameters of a letter once, when the scroll trigger
  is created.  A scroll update makes no draw and leaves the trigger, with its
  parameters, and the letters as they are; what an update at progress \<open>p\<close> asks of the
  letters is the same whether or not another update came before it.
\<close>

lemma onUpdate_deterministic:
  "scrollTriggerRef (onUpdate p s) = scrollTriggerRef s
   \<and> lettersRef (onUpdate p s) = lettersRef s
   \<and> hook_rng_pos (onUpdate p s) = hook_rng_pos s
   \<and> drop (length (gsap_log (onUpdate q s))) (gsap_log (onUpdate p (onUpdate q s)))
       = drop (length (gsap_log s)) (gsap_log (onUpdate p s))"
  by (cases "scrollTriggerRef s") (simp_all add: onUpdate_def)

end
